theory Spec2Isabelle
  imports Main
begin

section \<open>Python values and exceptions\<close>

text \<open>
  The adapter \<^verbatim>\<open>AnchorBrowser\<close> of \<^verbatim>\<open>computers/anchor.py\<close> stores in
  \<^verbatim>\<open>self.session_id\<close> whatever the vendor's JSON answer holds under the key
  \<^verbatim>\<open>"id"\<close>, and tests it with Python's truth test (\<^verbatim>\<open>if not self.session_id\<close>).
  The scalar JSON values are modelled; \<^verbatim>\<open>None\<close>, \<^verbatim>\<open>False\<close>, \<^verbatim>\<open>0\<close> and the empty
  string are the false ones.
\<close>

datatype pyval = PyNone | PyBool bool | PyInt int | PyStr string

fun truthy :: "pyval \<Rightarrow> bool" where
  "truthy PyNone = False"
| "truthy (PyBool b) = b"
| "truthy (PyInt i) = (i \<noteq> 0)"
| "truthy (PyStr s) = (s \<noteq> [])"

text \<open>Decimal rendering of integers, as \<^verbatim>\<open>str\<close> and f-strings do.\<close>

fun str_nat :: "nat \<Rightarrow> string" where
  "str_nat n =
     (if n < 10 then [''0123456789'' ! n]
      else str_nat (n div 10) @ [''0123456789'' ! (n mod 10)])"

definition str_int :: "int \<Rightarrow> string" where
  "str_int i = (if i < 0 then CHR ''-'' # str_nat (nat (- i)) else str_nat (nat i))"

fun py_str :: "pyval \<Rightarrow> string" where
  "py_str PyNone = ''None''"
| "py_str (PyBool b) = (if b then ''True'' else ''False'')"
| "py_str (PyInt i) = str_int i"
| "py_str (PyStr s) = s"

text \<open>
  An exception is its class name and its message (\<^verbatim>\<open>str(error)\<close>). Only subclasses of
  \<^verbatim>\<open>Exception\<close> are modelled: they are what \<^verbatim>\<open>except Exception\<close> catches.
  A call that can raise returns \<open>exn + 'a\<close>, with \<open>Inl\<close> for the exception.
\<close>

datatype exn = Exn (exn_type: string) (exn_str: string)

section \<open>The collaborators: HTTP client, Playwright, fallback driver\<close>

datatype http_method = GET | POST | DELETE

record http_request =
  verb :: http_method
  url :: string
  headers :: "(string \<times> string) list"
  json_body :: "(string \<times> pyval) list option"

text \<open>
  What \<^verbatim>\<open>response.json()\<close> decodes: a JSON object (a dict), or a value of
  another Python type, given by the name of that type.
\<close>

datatype json_doc = JObject "(string \<times> pyval) list" | JOther string

record response =
  status_code :: int
  reason :: string
  resp_url :: string
  resp_text :: string
  json :: "exn + json_doc"

text \<open>
  The library \<^verbatim>\<open>requests\<close> defines \<^verbatim>\<open>Response.raise_for_status\<close> to raise
  \<^verbatim>\<open>HTTPError\<close> when \<^verbatim>\<open>400 <= status_code < 500\<close> (a client error) or
  \<^verbatim>\<open>500 <= status_code < 600\<close> (a server error), and \<^verbatim>\<open>Response.ok\<close> to be true
  exactly when \<^verbatim>\<open>raise_for_status\<close> does not raise.
\<close>

definition raise_for_status :: "response \<Rightarrow> exn option" where
  "raise_for_status r =
     (if 400 \<le> status_code r \<and> status_code r < 500 then
        Some (Exn ''HTTPError''
          (str_int (status_code r) @ '' Client Error: '' @ reason r @ '' for url: '' @ resp_url r))
      else if 500 \<le> status_code r \<and> status_code r < 600 then
        Some (Exn ''HTTPError''
          (str_int (status_code r) @ '' Server Error: '' @ reason r @ '' for url: '' @ resp_url r))
      else None)"

definition ok :: "response \<Rightarrow> bool" where
  "ok r = (raise_for_status r = None)"

text \<open>
  \<^verbatim>\<open>dict.get(key)\<close>: the value under the key, \<^verbatim>\<open>None\<close> when the key is absent. A JSON
  object that repeats a key decodes to its last value.
\<close>

definition dict_get :: "(string \<times> pyval) list \<Rightarrow> string \<Rightarrow> pyval" where
  "dict_get d k = (case map_of (rev d) k of None \<Rightarrow> PyNone | Some v \<Rightarrow> v)"

text \<open>Pages are Playwright objects compared by identity; a context lists its open pages.\<close>

type_synonym page = nat

datatype browser_context = Context (pages: "page list")

datatype browser = Browser (contexts: "browser_context list")

text \<open>
  The operations of the fallback driver (the base class, reached through \<^verbatim>\<open>super()\<close>),
  and everything the adapter does to the outside world, in the order it does it.
\<close>

datatype call = Screenshot | Click int int string | Type string

datatype event =
    Http http_request
  | Print string
  | Super call
  | Connect string
  | On_page
  | On_close page
  | Goto page string

definition http_requests :: "event list \<Rightarrow> http_request list" where
  "http_requests evs = concat (map (\<lambda>e. case e of Http r \<Rightarrow> [r] | _ \<Rightarrow> []) evs)"

definition super_calls :: "event list \<Rightarrow> call list" where
  "super_calls evs = concat (map (\<lambda>e. case e of Super c \<Rightarrow> [c] | _ \<Rightarrow> []) evs)"

section \<open>The adapter's state\<close>

record anchor_browser =
  api_key :: string
  debug :: bool
  base_url :: string
  base_ws_url :: string
  session_id :: pyval
  dimensions :: "int \<times> int"
  proxy_config :: bool
  adblock_config :: "bool \<times> bool"
  captcha_config :: bool
  timeout :: int
  idle_timeout :: int
  priv_browser :: "browser option"
  priv_page :: "page option"

text \<open>
  \<^verbatim>\<open>__init__\<close>, given the value of the environment variable \<^verbatim>\<open>ANCHOR_API_KEY\<close>.
  The dictionaries \<^verbatim>\<open>proxy_config\<close>, \<^verbatim>\<open>adblock_config\<close> and \<^verbatim>\<open>captcha_config\<close> have fixed
  keys and are kept as their values (\<^verbatim>\<open>adblock_config\<close> as the pair of \<^verbatim>\<open>active\<close> and
  \<^verbatim>\<open>popup_blocking_active\<close>).
\<close>

definition dunder_init ::
  "string option \<Rightarrow> int \<Rightarrow> int \<Rightarrow> bool \<Rightarrow> bool \<Rightarrow> bool \<Rightarrow> bool \<Rightarrow> int \<Rightarrow> int \<Rightarrow> bool
     \<Rightarrow> exn + anchor_browser \<times> event list" where
  "dunder_init getenv width height proxy_active adblock_active popup_blocking_active
       captcha_active timeout' idle_timeout' debug' =
     (case getenv of
        None \<Rightarrow> Inl (Exn ''ValueError'' ''ANCHOR_API_KEY not found in .env file'')
      | Some key \<Rightarrow>
          if key = [] then Inl (Exn ''ValueError'' ''ANCHOR_API_KEY not found in .env file'')
          else Inr
            (\<lparr>api_key = key, debug = debug',
              base_url = ''https://api.anchorbrowser.io/api'',
              base_ws_url = ''wss://connect.anchorbrowser.io'',
              session_id = PyNone,
              dimensions = (width, height),
              proxy_config = proxy_active,
              adblock_config = (adblock_active, popup_blocking_active),
              captcha_config = captcha_active,
              timeout = timeout', idle_timeout = idle_timeout',
              priv_browser = None, priv_page = None\<rparr>,
             if debug' then
               [Print (''Anchor browser initialized with viewport '' @ str_int width @ ''x''
                       @ str_int height)]
             else []))"

section \<open>The commands\<close>

text \<open>
  Each command takes the vendor's HTTP endpoint (what \<^verbatim>\<open>requests.get\<close> or
  \<^verbatim>\<open>requests.post\<close> does with a request: raise, or return a response) and the
  fallback driver's operation, whose \<open>i\<close>-th invocation during the command raises or
  returns. It yields the events of the call in order, and what the call raises or returns.
  No command assigns to a field of \<^verbatim>\<open>self\<close>.
\<close>

definition screenshot_request :: "anchor_browser \<Rightarrow> http_request" where
  "screenshot_request self =
     \<lparr>verb = GET,
      url = base_url self @ ''/sessions/'' @ py_str (session_id self) @ ''/screenshot'',
      headers = [(''anchor-api-key'', api_key self)],
      json_body = None\<rparr>"

definition screenshot ::
  "(http_request \<Rightarrow> exn + response) \<Rightarrow> (nat \<Rightarrow> exn + string) \<Rightarrow> anchor_browser
     \<Rightarrow> event list \<times> (exn + string)" where
  "screenshot requests_get super_screenshot self =
     (if \<not> truthy (session_id self) then
        ([Print ''No active session, falling back to standard screenshot'', Super Screenshot],
         super_screenshot 0)
      else
        (case requests_get (screenshot_request self) of
           Inl error \<Rightarrow>
             ([Http (screenshot_request self),
               Print (''Anchor screenshot failed, falling back to standard screenshot: ''
                      @ exn_str error),
               Super Screenshot],
              super_screenshot 0)
         | Inr response \<Rightarrow>
             if \<not> ok response then
               (case super_screenshot 0 of
                  Inr img \<Rightarrow>
                    ([Http (screenshot_request self),
                      Print (''Anchor screenshot failed with status ''
                             @ str_int (status_code response)
                             @ '', falling back to standard screenshot''),
                      Super Screenshot],
                     Inr img)
                | Inl error \<Rightarrow>
                    ([Http (screenshot_request self),
                      Print (''Anchor screenshot failed with status ''
                             @ str_int (status_code response)
                             @ '', falling back to standard screenshot''),
                      Super Screenshot,
                      Print (''Anchor screenshot failed, falling back to standard screenshot: ''
                             @ exn_str error),
                      Super Screenshot],
                     super_screenshot 1))
             else ([Http (screenshot_request self)], Inr (resp_text response))))"

text \<open>\<^verbatim>\<open>button_mapping.get(button, "left")\<close>\<close>

definition button_mapping :: "(string \<times> string) list" where
  "button_mapping = [(''left'', ''left''), (''right'', ''right'')]"

definition button_type :: "string \<Rightarrow> string" where
  "button_type button = (case map_of button_mapping button of None \<Rightarrow> ''left'' | Some b \<Rightarrow> b)"

definition click_request :: "anchor_browser \<Rightarrow> int \<Rightarrow> int \<Rightarrow> string \<Rightarrow> http_request" where
  "click_request self x y button =
     \<lparr>verb = POST,
      url = base_url self @ ''/sessions/'' @ py_str (session_id self) @ ''/mouse/click'',
      headers = [(''anchor-api-key'', api_key self)],
      json_body = Some [(''x'', PyInt x), (''y'', PyInt y),
                        (''button'', PyStr (button_type button))]\<rparr>"

definition click ::
  "(http_request \<Rightarrow> exn + response) \<Rightarrow> (nat \<Rightarrow> exn + unit) \<Rightarrow> anchor_browser
     \<Rightarrow> int \<Rightarrow> int \<Rightarrow> string \<Rightarrow> event list \<times> (exn + unit)" where
  "click requests_post super_click self x y button =
     (if button \<in> set [''back'', ''forward'', ''wheel''] then
        ([Super (Click x y button)], super_click 0)
      else if \<not> truthy (session_id self) then
        ([Print ''No active session, falling back to standard click'',
          Super (Click x y button)],
         super_click 0)
      else
        (case requests_post (click_request self x y button) of
           Inl error \<Rightarrow>
             ([Http (click_request self x y button),
               Print (''Anchor click failed, falling back to standard click: ''
                      @ exn_str error),
               Super (Click x y button)],
              super_click 0)
         | Inr response \<Rightarrow>
             if \<not> ok response then
               (case super_click 0 of
                  Inr u \<Rightarrow>
                    ([Http (click_request self x y button),
                      Print (''Anchor click failed with status ''
                             @ str_int (status_code response)
                             @ '', falling back to standard click''),
                      Super (Click x y button)],
                     Inr ())
                | Inl error \<Rightarrow>
                    ([Http (click_request self x y button),
                      Print (''Anchor click failed with status ''
                             @ str_int (status_code response)
                             @ '', falling back to standard click''),
                      Super (Click x y button),
                      Print (''Anchor click failed, falling back to standard click: ''
                             @ exn_str error),
                      Super (Click x y button)],
                     super_click 1))
             else ([Http (click_request self x y button)], Inr ())))"

definition type_request :: "anchor_browser \<Rightarrow> string \<Rightarrow> http_request" where
  "type_request self txt =
     \<lparr>verb = POST,
      url = base_url self @ ''/sessions/'' @ py_str (session_id self) @ ''/keyboard/type'',
      headers = [(''anchor-api-key'', api_key self)],
      json_body = Some [(''text'', PyStr txt), (''delay'', PyInt 30)]\<rparr>"

definition type ::
  "(http_request \<Rightarrow> exn + response) \<Rightarrow> (nat \<Rightarrow> exn + unit) \<Rightarrow> anchor_browser
     \<Rightarrow> string \<Rightarrow> event list \<times> (exn + unit)" where
  "type requests_post super_type self txt =
     (if \<not> truthy (session_id self) then
        ([Print ''No active session, falling back to standard type'', Super (Type txt)],
         super_type 0)
      else
        (case requests_post (type_request self txt) of
           Inl error \<Rightarrow>
             ([Http (type_request self txt),
               Print (''Anchor type failed, falling back to standard type: '' @ exn_str error),
               Super (Type txt)],
              super_type 0)
         | Inr response \<Rightarrow>
             if \<not> ok response then
               (case super_type 0 of
                  Inr u \<Rightarrow>
                    ([Http (type_request self txt),
                      Print (''Anchor type failed with status ''
                             @ str_int (status_code response)
                             @ '', falling back to standard type''),
                      Super (Type txt)],
                     Inr ())
                | Inl error \<Rightarrow>
                    ([Http (type_request self txt),
                      Print (''Anchor type failed with status ''
                             @ str_int (status_code response)
                             @ '', falling back to standard type''),
                      Super (Type txt),
                      Print (''Anchor type failed, falling back to standard type: ''
                             @ exn_str error),
                      Super (Type txt)],
                     super_type 1))
             else ([Http (type_request self txt)], Inr ())))"

section \<open>Session lifecycle\<close>

text \<open>
  \<^verbatim>\<open>__exit__\<close>; its three arguments are not used. A method that assigns to a field
  returns the new state, then the events and the outcome.
\<close>

definition delete_request :: "anchor_browser \<Rightarrow> http_request" where
  "delete_request self =
     \<lparr>verb = DELETE,
      url = base_url self @ ''/sessions/'' @ py_str (session_id self),
      headers = [(''anchor-api-key'', api_key self)],
      json_body = None\<rparr>"

definition dunder_exit ::
  "(http_request \<Rightarrow> exn + response) \<Rightarrow> anchor_browser
     \<Rightarrow> anchor_browser \<times> event list \<times> (exn + unit)" where
  "dunder_exit requests_delete self =
     (if truthy (session_id self) then
        (case requests_delete (delete_request self) of
           Inl error \<Rightarrow> (self, [Http (delete_request self)], Inl error)
         | Inr response \<Rightarrow>
             (self\<lparr>session_id := PyNone\<rparr>,
              Http (delete_request self)
                # (if debug self then
                     [Print (''Ended Anchor session: '' @ py_str (session_id self))]
                   else []),
              Inr ()))
      else (self, [], Inr ()))"

definition create_request :: "anchor_browser \<Rightarrow> http_request" where
  "create_request self =
     \<lparr>verb = POST,
      url = base_url self @ ''/sessions'',
      headers = [(''anchor-api-key'', api_key self)],
      json_body = Some
        [(''width'', PyInt (fst (dimensions self))),
         (''height'', PyInt (snd (dimensions self))),
         (''useProxy'', PyBool (proxy_config self)),
         (''solveCaptcha'', PyBool (captcha_config self)),
         (''sessionTimeout'', PyInt (timeout self)),
         (''sessionIdleTimeout'', PyInt (idle_timeout self)),
         (''adBlocker'', PyBool (fst (adblock_config self))),
         (''popupBlockingActive'', PyBool (snd (adblock_config self))),
         (''headless'', PyBool False)]\<rparr>"

text \<open>
  \<^verbatim>\<open>_get_browser_and_page\<close>, lines 90 to 97: the connection over the session's
  WebSocket address. \<^verbatim>\<open>connect_over_cdp\<close> and \<^verbatim>\<open>page.goto\<close> are Playwright's.
\<close>

definition connect_session ::
  "(string \<Rightarrow> exn + browser) \<Rightarrow> (page \<Rightarrow> string \<Rightarrow> exn option) \<Rightarrow> anchor_browser
     \<Rightarrow> event list \<times> (exn + browser \<times> page)" where
  "connect_session connect_over_cdp goto self =
     (let ws = base_ws_url self @ ''/?sessionId='' @ py_str (session_id self) in
      case connect_over_cdp ws of
        Inl error \<Rightarrow> ([Connect ws], Inl error)
      | Inr browser \<Rightarrow>
          (case contexts browser of
             [] \<Rightarrow> ([Connect ws], Inl (Exn ''IndexError'' ''list index out of range''))
           | ctx # _ \<Rightarrow>
               (case pages ctx of
                  [] \<Rightarrow>
                    ([Connect ws, On_page],
                     Inl (Exn ''IndexError'' ''list index out of range''))
                | pg # _ \<Rightarrow>
                    (case goto pg ''https://bing.com'' of
                       Some error \<Rightarrow>
                         ([Connect ws, On_page, Goto pg ''https://bing.com''], Inl error)
                     | None \<Rightarrow>
                         ([Connect ws, On_page, Goto pg ''https://bing.com''],
                          Inr (browser, pg))))))"

text \<open>
  \<^verbatim>\<open>_get_browser_and_page\<close>. \<^verbatim>\<open>response.json().get("id")\<close> raises what
  \<^verbatim>\<open>json()\<close> raises, and \<^verbatim>\<open>AttributeError\<close> when the decoded value is not a dict.
  The assignment to \<^verbatim>\<open>self.session_id\<close> comes before the test of the identifier.
\<close>

definition get_browser_and_page ::
  "(http_request \<Rightarrow> exn + response) \<Rightarrow> (string \<Rightarrow> exn + browser)
     \<Rightarrow> (page \<Rightarrow> string \<Rightarrow> exn option) \<Rightarrow> anchor_browser
     \<Rightarrow> anchor_browser \<times> event list \<times> (exn + browser \<times> page)" where
  "get_browser_and_page requests_post connect_over_cdp goto self =
     (case requests_post (create_request self) of
        Inl error \<Rightarrow> (self, [Http (create_request self)], Inl error)
      | Inr response \<Rightarrow>
          (case raise_for_status response of
             Some error \<Rightarrow> (self, [Http (create_request self)], Inl error)
           | None \<Rightarrow>
               (case json response of
                  Inl error \<Rightarrow> (self, [Http (create_request self)], Inl error)
                | Inr (JOther tn) \<Rightarrow>
                    (self, [Http (create_request self)],
                     Inl (Exn ''AttributeError''
                            (CHR 0x27 # tn @ CHR 0x27 # '' object has no attribute ''
                             @ CHR 0x27 # ''get'' @ [CHR 0x27])))
                | Inr (JObject d) \<Rightarrow>
                    (let self' = self\<lparr>session_id := dict_get d ''id''\<rparr> in
                     if \<not> truthy (session_id self') then
                       (self', [Http (create_request self)],
                        Inl (Exn ''ValueError'' ''Failed to create Anchor browser session''))
                     else
                       (case connect_session connect_over_cdp goto self' of
                          (evs, r) \<Rightarrow> (self', Http (create_request self) # evs, r))))))"

section \<open>Page lifecycle\<close>

definition handle_new_page :: "page \<Rightarrow> anchor_browser \<Rightarrow> anchor_browser \<times> event list" where
  "handle_new_page pg self =
     (self\<lparr>priv_page := Some pg\<rparr>, [Print ''New page created'', On_close pg])"

text \<open>
  \<^verbatim>\<open>_handle_page_close\<close>. The field \<^verbatim>\<open>_browser\<close> holds the browser object as it is
  when the handler runs; \<^verbatim>\<open>pages[-1]\<close> is read only when the list is not empty.
\<close>

definition handle_page_close ::
  "page \<Rightarrow> anchor_browser \<Rightarrow> anchor_browser \<times> event list \<times> (exn + unit)" where
  "handle_page_close pg self =
     (if priv_page self = Some pg then
        (case priv_browser self of
           None \<Rightarrow>
             (self, [Print ''Page closed''],
              Inl (Exn ''AttributeError''
                     (CHR 0x27 # ''NoneType'' @ CHR 0x27 # '' object has no attribute ''
                      @ CHR 0x27 # ''contexts'' @ [CHR 0x27])))
         | Some b \<Rightarrow>
             (case contexts b of
                [] \<Rightarrow>
                  (self, [Print ''Page closed''],
                   Inl (Exn ''IndexError'' ''list index out of range''))
              | ctx # _ \<Rightarrow>
                  if pages ctx \<noteq> [] then
                    (self\<lparr>priv_page := Some (last (pages ctx))\<rparr>, [Print ''Page closed''],
                     Inr ())
                  else
                    (self\<lparr>priv_page := None\<rparr>,
                     [Print ''Page closed'', Print ''Warning: All pages have been closed.''],
                     Inr ())))
      else (self, [Print ''Page closed''], Inr ()))"

text \<open>
  Playwright's side of the lifecycle. A handler runs when its event is emitted on the
  object it was registered on with \<^verbatim>\<open>on\<close>: \<^verbatim>\<open>_handle_new_page\<close> when the context
  announces a page (registered by \<open>On_page\<close>), \<^verbatim>\<open>_handle_page_close\<close> when a page that
  carries it (\<open>On_close\<close>) closes. The registrations are read off the events so far.
  Each event comes with the browser object as it is when the event is emitted, which is
  what a stored reference to it then shows. An exception raised by a handler does not
  reach the adapter's caller and is dropped here.
\<close>

datatype page_event = Page_opened page browser | Page_closed page browser

fun dispatch ::
  "page_event \<Rightarrow> anchor_browser \<times> event list \<Rightarrow> anchor_browser \<times> event list" where
  "dispatch (Page_opened pg b) (self, log) =
     (let self1 = self\<lparr>priv_browser := map_option (\<lambda>_. b) (priv_browser self)\<rparr> in
      if On_page \<in> set log then
        (case handle_new_page pg self1 of (self2, evs) \<Rightarrow> (self2, log @ evs))
      else (self1, log))"
| "dispatch (Page_closed pg b) (self, log) =
     (let self1 = self\<lparr>priv_browser := map_option (\<lambda>_. b) (priv_browser self)\<rparr> in
      if On_close pg \<in> set log then
        (case handle_page_close pg self1 of (self2, evs, r) \<Rightarrow> (self2, log @ evs))
      else (self1, log))"

definition run ::
  "page_event list \<Rightarrow> anchor_browser \<times> event list \<Rightarrow> anchor_browser \<times> event list" where
  "run pevs st = fold dispatch pevs st"

fun opens :: "page \<Rightarrow> page_event \<Rightarrow> bool" where
  "opens pg (Page_opened q b) = (q = pg)"
| "opens pg (Page_closed q b) = False"

section \<open>The life of the adapter\<close>

text \<open>
  The calls an adapter receives once its session is created: the three commands, each
  with what the vendor and the fallback driver do during the call, \<^verbatim>\<open>__exit__\<close>, and
  the page events. A command assigns no field of \<^verbatim>\<open>self\<close>, so the state after it is the
  state before it; \<^verbatim>\<open>__exit__\<close> and the handlers return their new state. The events
  of each call are appended to the log.
\<close>

datatype adapter_call =
    Call_screenshot "http_request \<Rightarrow> exn + response" "nat \<Rightarrow> exn + string"
  | Call_click "http_request \<Rightarrow> exn + response" "nat \<Rightarrow> exn + unit" int int string
  | Call_type "http_request \<Rightarrow> exn + response" "nat \<Rightarrow> exn + unit" string
  | Call_exit "http_request \<Rightarrow> exn + response"
  | Page_event page_event

fun invoke ::
  "adapter_call \<Rightarrow> anchor_browser \<times> event list \<Rightarrow> anchor_browser \<times> event list" where
  "invoke (Call_screenshot requests_get super_screenshot) (self, log) =
     (self, log @ fst (screenshot requests_get super_screenshot self))"
| "invoke (Call_click requests_post super_click x y button) (self, log) =
     (self, log @ fst (click requests_post super_click self x y button))"
| "invoke (Call_type requests_post super_type txt) (self, log) =
     (self, log @ fst (type requests_post super_type self txt))"
| "invoke (Call_exit requests_delete) (self, log) =
     (case dunder_exit requests_delete self of (self', evs, r) \<Rightarrow> (self', log @ evs))"
| "invoke (Page_event ev) (self, log) = dispatch ev (self, log)"

fun is_exit :: "adapter_call \<Rightarrow> bool" where
  "is_exit (Call_exit requests_delete) = True"
| "is_exit c = False"

section \<open>Concrete collaborators and states\<close>

text \<open>A vendor endpoint that answers every request alike, and one that cannot be reached.\<close>

definition reply :: "int \<Rightarrow> string \<Rightarrow> response" where
  "reply status body =
     \<lparr>status_code = status, reason = [], resp_url = [], resp_text = body,
      json = Inl (Exn ''JSONDecodeError'' ''Expecting value: line 1 column 1 (char 0)'')\<rparr>"

definition reply_json :: "int \<Rightarrow> (string \<times> pyval) list \<Rightarrow> response" where
  "reply_json status d =
     \<lparr>status_code = status, reason = [], resp_url = [], resp_text = [],
      json = Inr (JObject d)\<rparr>"

definition vendor_replies :: "response \<Rightarrow> http_request \<Rightarrow> exn + response" where
  "vendor_replies r req = Inr r"

definition vendor_unreachable :: "http_request \<Rightarrow> exn + response" where
  "vendor_unreachable req = Inl (Exn ''ConnectionError'' ''Connection refused'')"

text \<open>A fallback operation that returns at every invocation, and one that raises.\<close>

definition super_returns :: "'a \<Rightarrow> nat \<Rightarrow> exn + 'a" where
  "super_returns v i = Inr v"

definition super_raises :: "nat \<Rightarrow> exn + 'a" where
  "super_raises i = Inl (Exn ''Error'' ''Target page, context or browser has been closed'')"

definition cdp_connects :: "browser \<Rightarrow> string \<Rightarrow> exn + browser" where
  "cdp_connects b ws = Inr b"

definition goto_succeeds :: "page \<Rightarrow> string \<Rightarrow> exn option" where
  "goto_succeeds pg u = None"

text \<open>
  The adapter as constructed with its default arguments, before and after a session
  \<^verbatim>\<open>abc123\<close> is created.
\<close>

definition fresh :: anchor_browser where
  "fresh =
     \<lparr>api_key = ''secret'', debug = False,
      base_url = ''https://api.anchorbrowser.io/api'',
      base_ws_url = ''wss://connect.anchorbrowser.io'',
      session_id = PyNone, dimensions = (1024, 900), proxy_config = True,
      adblock_config = (True, True), captcha_config = True, timeout = 15, idle_timeout = 2,
      priv_browser = None, priv_page = None\<rparr>"

definition abc123 :: anchor_browser where
  "abc123 = fresh\<lparr>session_id := PyStr ''abc123''\<rparr>"

text \<open>
  The adapter after the base driver has stored a browser and page 1 as current, with
  pages 2 and 3 open, and with no page left.
\<close>

definition two_pages :: anchor_browser where
  "two_pages = abc123\<lparr>priv_browser := Some (Browser [Context [2, 3]]), priv_page := Some 1\<rparr>"

definition no_pages :: anchor_browser where
  "no_pages = abc123\<lparr>priv_browser := Some (Browser [Context []]), priv_page := Some 1\<rparr>"

text \<open>
  A session whose first context shows one page, 0; the vendor's answer that creates it;
  and a popup, page 1, that opens and closes again.
\<close>

definition session_reply :: response where
  "session_reply = reply_json 200 [(''id'', PyStr ''abc123'')]"

definition connected :: anchor_browser where
  "connected = abc123\<lparr>priv_browser := Some (Browser [Context [0]]), priv_page := Some 0\<rparr>"

definition connected_log :: "event list" where
  "connected_log =
     [Http (create_request fresh),
      Connect ''wss://connect.anchorbrowser.io/?sessionId=abc123'',
      On_page, Goto 0 ''https://bing.com'']"

definition popup_cycle :: "page_event list" where
  "popup_cycle =
     [Page_opened 1 (Browser [Context [0, 1]]), Page_closed 1 (Browser [Context [0]])]"

text \<open>
  An answer whose body decodes to a JSON value that is not an object, and a run of
  commands and page events on the session \<^verbatim>\<open>abc123\<close>.
\<close>

definition reply_other :: "int \<Rightarrow> string \<Rightarrow> response" where
  "reply_other status tn =
     \<lparr>status_code = status, reason = [], resp_url = [], resp_text = [],
      json = Inr (JOther tn)\<rparr>"

definition a_life :: "adapter_call list" where
  "a_life =
     [Call_screenshot (vendor_replies (reply 200 ''BASE64DATA'')) (super_returns ''FALLBACK''),
      Page_event (Page_opened 1 (Browser [Context [0, 1]])),
      Call_click (vendor_replies (reply 500 [])) super_raises 10 20 ''left'',
      Page_event (Page_closed 1 (Browser [Context [0]])),
      Call_type vendor_unreachable (super_returns ()) ''hello'']"

section \<open>Basic facts\<close>

lemma dunder_init_default:
  "dunder_init (Some ''secret'') 1024 900 True True True True 15 2 False = Inr (fresh, [])"
  by (simp add: dunder_init_def fresh_def)

lemma ok_iff: "ok r \<longleftrightarrow> \<not> (400 \<le> status_code r \<and> status_code r < 600)"
  by (auto simp: ok_def raise_for_status_def)

lemma http_requests_simps:
  "http_requests [] = []"
  "http_requests (Http r # evs) = r # http_requests evs"
  "http_requests (Print s # evs) = http_requests evs"
  "http_requests (Super c # evs) = http_requests evs"
  by (simp_all add: http_requests_def)

lemma super_calls_simps:
  "super_calls [] = []"
  "super_calls (Http r # evs) = super_calls evs"
  "super_calls (Print s # evs) = super_calls evs"
  "super_calls (Super c # evs) = c # super_calls evs"
  by (simp_all add: super_calls_def)

lemma dict_get_absent: "k \<notin> fst ` set d \<Longrightarrow> dict_get d k = PyNone"
  using map_of_eq_None_iff [of "rev d" k] by (simp add: dict_get_def)

section \<open>Vendor failures\<close>

text \<open>
  The claim C1 as it is written asks for the fallback at every status outside 200..299.
  The commands test \<^verbatim>\<open>response.ok\<close>, which is false for the statuses 400..599 only:
  with the session \<^verbatim>\<open>abc123\<close> and a vendor that answers the screenshot request with
  status 304 and an empty body, the screenshot is that empty body and the fallback driver
  is not invoked.
\<close>

theorem non_2xx_without_fallback_counterexample:
  "truthy (session_id abc123)
   \<and> vendor_replies (reply 304 []) (screenshot_request abc123) = Inr (reply 304 [])
   \<and> status_code (reply 304 []) = 304
   \<and> screenshot (vendor_replies (reply 304 [])) (super_returns ''FALLBACK'') abc123
       = ([Http (screenshot_request abc123)], Inr [])
   \<and> super_calls (fst (screenshot (vendor_replies (reply 304 []))
         (super_returns ''FALLBACK'') abc123)) = []"
  by (simp add: abc123_def fresh_def screenshot_def vendor_replies_def reply_def ok_iff
        super_calls_simps)

text \<open>
  The fallback call for a failed status stands inside the \<^verbatim>\<open>try\<close> block. When it
  raises, the handler written for the vendor's exceptions catches it and invokes the
  fallback driver a second time.
\<close>

lemma screenshot_fallback_called_again:
  "screenshot (vendor_replies (reply 500 [])) super_raises abc123
     = ([Http (screenshot_request abc123),
         Print ''Anchor screenshot failed with status 500, falling back to standard screenshot'',
         Super Screenshot,
         Print (''Anchor screenshot failed, falling back to standard screenshot: ''
                @ ''Target page, context or browser has been closed''),
         Super Screenshot],
        Inl (Exn ''Error'' ''Target page, context or browser has been closed''))"
  by (simp add: abc123_def fresh_def screenshot_def vendor_replies_def reply_def ok_iff
        super_raises_def str_int_def)

text \<open>
  Claim C1, amended. With an active session id, for screenshot, click (with a button
  that is sent to the vendor) and type: when the vendor call raises, or when it answers
  with a status in 400..599 and the fallback driver's operation returns, the command
  issues the vendor request once, invokes the fallback driver's equivalent operation
  exactly once, and the outcome of the command is the outcome of that fallback
  invocation, so no error of the vendor layer reaches the caller.
\<close>

theorem vendor_failure_falls_back_once:
  assumes "truthy (session_id self)"
    and "button \<notin> {''back'', ''forward'', ''wheel''}"
  shows "(requests_get (screenshot_request self) = Inl e
            \<or> (requests_get (screenshot_request self) = Inr response
                \<and> 400 \<le> status_code response \<and> status_code response < 600
                \<and> super_screenshot 0 = Inr img)
          \<longrightarrow> http_requests (fst (screenshot requests_get super_screenshot self))
                = [screenshot_request self]
              \<and> super_calls (fst (screenshot requests_get super_screenshot self)) = [Screenshot]
              \<and> snd (screenshot requests_get super_screenshot self) = super_screenshot 0)
       \<and> (requests_post (click_request self x y button) = Inl e
            \<or> (requests_post (click_request self x y button) = Inr response
                \<and> 400 \<le> status_code response \<and> status_code response < 600
                \<and> super_click 0 = Inr u)
          \<longrightarrow> http_requests (fst (click requests_post super_click self x y button))
                = [click_request self x y button]
              \<and> super_calls (fst (click requests_post super_click self x y button))
                = [Click x y button]
              \<and> snd (click requests_post super_click self x y button) = super_click 0)
       \<and> (requests_post (type_request self txt) = Inl e
            \<or> (requests_post (type_request self txt) = Inr response
                \<and> 400 \<le> status_code response \<and> status_code response < 600
                \<and> super_type 0 = Inr u)
          \<longrightarrow> http_requests (fst (type requests_post super_type self txt))
                = [type_request self txt]
              \<and> super_calls (fst (type requests_post super_type self txt)) = [Type txt]
              \<and> snd (type requests_post super_type self txt) = super_type 0)"
proof (intro conjI impI)
  assume "requests_get (screenshot_request self) = Inl e
            \<or> (requests_get (screenshot_request self) = Inr response
                \<and> 400 \<le> status_code response \<and> status_code response < 600
                \<and> super_screenshot 0 = Inr img)"
  then show "http_requests (fst (screenshot requests_get super_screenshot self))
                = [screenshot_request self]"
     and "super_calls (fst (screenshot requests_get super_screenshot self)) = [Screenshot]"
     and "snd (screenshot requests_get super_screenshot self) = super_screenshot 0"
    using assms(1)
    by (auto simp add: screenshot_def ok_iff http_requests_simps super_calls_simps)
next
  assume "requests_post (click_request self x y button) = Inl e
            \<or> (requests_post (click_request self x y button) = Inr response
                \<and> 400 \<le> status_code response \<and> status_code response < 600
                \<and> super_click 0 = Inr u)"
  then show "http_requests (fst (click requests_post super_click self x y button))
                = [click_request self x y button]"
    and "super_calls (fst (click requests_post super_click self x y button))
                = [Click x y button]"
    and "snd (click requests_post super_click self x y button) = super_click 0"
    using assms
    by (auto simp add: click_def ok_iff http_requests_simps super_calls_simps)
next
  assume "requests_post (type_request self txt) = Inl e
            \<or> (requests_post (type_request self txt) = Inr response
                \<and> 400 \<le> status_code response \<and> status_code response < 600
                \<and> super_type 0 = Inr u)"
  then show "http_requests (fst (type requests_post super_type self txt))
                = [type_request self txt]"
    and "super_calls (fst (type requests_post super_type self txt)) = [Type txt]"
    and "snd (type requests_post super_type self txt) = super_type 0"
    using assms(1)
    by (auto simp add: type_def ok_iff http_requests_simps super_calls_simps)
qed

theorem vendor_failure_falls_back_once_witness:
  "truthy (session_id abc123)
   \<and> status_code (reply 500 []) = 500
   \<and> super_calls (fst (screenshot (vendor_replies (reply 500 []))
        (super_returns ''FALLBACK'') abc123)) = [Screenshot]
   \<and> snd (screenshot (vendor_replies (reply 500 [])) (super_returns ''FALLBACK'') abc123)
       = Inr ''FALLBACK''
   \<and> super_calls (fst (click (vendor_replies (reply 500 [])) (super_returns ()) abc123
        10 20 ''left'')) = [Click 10 20 ''left'']
   \<and> http_requests (fst (type (vendor_replies (reply 500 [])) (super_returns ()) abc123
        ''hello'')) = [type_request abc123 ''hello'']
   \<and> super_calls (fst (type (vendor_replies (reply 500 [])) (super_returns ()) abc123
        ''hello'')) = [Type ''hello'']
   \<and> super_calls (fst (screenshot vendor_unreachable super_raises abc123)) = [Screenshot]
   \<and> snd (screenshot vendor_unreachable super_raises abc123)
       = Inl (Exn ''Error'' ''Target page, context or browser has been closed'')"
proof -
  have t: "truthy (session_id abc123)" by (simp add: abc123_def)
  have b: "''left'' \<notin> {''back'', ''forward'', ''wheel''}" by simp
  show ?thesis
    using t
      vendor_failure_falls_back_once [OF t b,
        of "vendor_replies (reply 500 [])" _ "reply 500 []" "super_returns ''FALLBACK''"
           "''FALLBACK''" "vendor_replies (reply 500 [])" 10 20 "super_returns ()" "()"
           "''hello''" "super_returns ()"]
      vendor_failure_falls_back_once [OF t b,
        of vendor_unreachable "Exn ''ConnectionError'' ''Connection refused''" _
           super_raises]
    by (simp add: vendor_replies_def vendor_unreachable_def reply_def super_returns_def
          super_raises_def)
qed

section \<open>Commands without a session\<close>

text \<open>
  Claim C2. While the stored session identifier is \<^verbatim>\<open>None\<close>, each of screenshot, click
  and type issues no vendor HTTP request and invokes the fallback driver's equivalent
  operation exactly once; the outcome of the command is the outcome of that invocation,
  so the adapter raises no error of its own.
\<close>

theorem no_session_delegates:
  assumes "session_id self = PyNone"
  shows "http_requests (fst (screenshot requests_get super_screenshot self)) = []
         \<and> super_calls (fst (screenshot requests_get super_screenshot self)) = [Screenshot]
         \<and> snd (screenshot requests_get super_screenshot self) = super_screenshot 0
         \<and> http_requests (fst (click requests_post super_click self x y button)) = []
         \<and> super_calls (fst (click requests_post super_click self x y button))
             = [Click x y button]
         \<and> snd (click requests_post super_click self x y button) = super_click 0
         \<and> http_requests (fst (type requests_post super_type self txt)) = []
         \<and> super_calls (fst (type requests_post super_type self txt)) = [Type txt]
         \<and> snd (type requests_post super_type self txt) = super_type 0"
  using assms
  by (simp add: screenshot_def click_def type_def http_requests_simps super_calls_simps)

theorem no_session_delegates_witness:
  "session_id fresh = PyNone
   \<and> screenshot (vendor_replies (reply 200 ''BASE64DATA'')) (super_returns ''FALLBACK'') fresh
       = ([Print ''No active session, falling back to standard screenshot'', Super Screenshot],
          Inr ''FALLBACK'')
   \<and> http_requests (fst (click (vendor_replies (reply 200 [])) (super_returns ()) fresh
        10 20 ''left'')) = []
   \<and> super_calls (fst (click (vendor_replies (reply 200 [])) (super_returns ()) fresh
        10 20 ''left'')) = [Click 10 20 ''left'']
   \<and> http_requests (fst (type (vendor_replies (reply 200 [])) (super_returns ()) fresh
        ''hello'')) = []
   \<and> super_calls (fst (type (vendor_replies (reply 200 [])) (super_returns ()) fresh
        ''hello'')) = [Type ''hello'']
   \<and> snd (type (vendor_replies (reply 200 [])) (super_returns ()) fresh ''hello'') = Inr ()"
proof -
  have n: "session_id fresh = PyNone" by (simp add: fresh_def)
  show ?thesis
    using n
      no_session_delegates [OF n,
        of "vendor_replies (reply 200 ''BASE64DATA'')" "super_returns ''FALLBACK''"
           "vendor_replies (reply 200 [])" "super_returns ()" 10 20 "''left''"
           "super_returns ()" "''hello''"]
    by (simp add: screenshot_def super_returns_def)
qed

section \<open>Buttons\<close>

text \<open>
  Claim C5. Whatever the session state, click with the button \<^verbatim>\<open>back\<close>, \<^verbatim>\<open>forward\<close> or
  \<^verbatim>\<open>wheel\<close> issues no vendor HTTP request: it invokes the fallback driver's click, once,
  and nothing else.
\<close>

theorem click_navigation_buttons:
  assumes "button \<in> {''back'', ''forward'', ''wheel''}"
  shows "click requests_post super_click self x y button
           = ([Super (Click x y button)], super_click 0)
         \<and> http_requests (fst (click requests_post super_click self x y button)) = []
         \<and> super_calls (fst (click requests_post super_click self x y button))
             = [Click x y button]"
  using assms by (auto simp add: click_def http_requests_simps super_calls_simps)

theorem click_navigation_buttons_witness:
  "click (vendor_replies (reply 200 [])) (super_returns ()) abc123 10 20 ''back''
     = ([Super (Click 10 20 ''back'')], Inr ())
   \<and> http_requests (fst (click (vendor_replies (reply 200 [])) (super_returns ()) abc123
        10 20 ''back'')) = []
   \<and> click (vendor_replies (reply 200 [])) (super_returns ()) fresh 10 20 ''wheel''
     = ([Super (Click 10 20 ''wheel'')], Inr ())
   \<and> click vendor_unreachable (super_returns ()) abc123 10 20 ''forward''
     = ([Super (Click 10 20 ''forward'')], Inr ())"
proof -
  have b: "''back'' \<in> {''back'', ''forward'', ''wheel''}" by simp
  have w: "''wheel'' \<in> {''back'', ''forward'', ''wheel''}" by simp
  have f: "''forward'' \<in> {''back'', ''forward'', ''wheel''}" by simp
  show ?thesis
    using click_navigation_buttons [OF b, of "vendor_replies (reply 200 [])"
          "super_returns ()" abc123 10 20]
      click_navigation_buttons [OF w, of "vendor_replies (reply 200 [])"
          "super_returns ()" fresh 10 20]
      click_navigation_buttons [OF f, of vendor_unreachable "super_returns ()" abc123 10 20]
    by (simp add: super_returns_def http_requests_simps)
qed

text \<open>
  Claim C9. With an active session id, click with a button outside \<^verbatim>\<open>left\<close>,
  \<^verbatim>\<open>right\<close>, \<^verbatim>\<open>back\<close>, \<^verbatim>\<open>forward\<close> and \<^verbatim>\<open>wheel\<close> begins with a POST to the vendor's
  mouse-click endpoint whose \<^verbatim>\<open>button\<close> field is \<^verbatim>\<open>left\<close>, and that is the only vendor
  request; when the vendor answers with success the fallback driver is not invoked.
\<close>

theorem click_unknown_button_sent_as_left:
  assumes "truthy (session_id self)"
    and "button \<notin> {''left'', ''right'', ''back'', ''forward'', ''wheel''}"
  shows "http_requests (fst (click requests_post super_click self x y button))
           = [\<lparr>verb = POST,
               url = base_url self @ ''/sessions/'' @ py_str (session_id self)
                     @ ''/mouse/click'',
               headers = [(''anchor-api-key'', api_key self)],
               json_body = Some [(''x'', PyInt x), (''y'', PyInt y),
                                 (''button'', PyStr ''left'')]\<rparr>]
         \<and> hd (fst (click requests_post super_click self x y button))
             = Http (click_request self x y button)
         \<and> (requests_post (click_request self x y button) = Inr response \<and> ok response
              \<longrightarrow> super_calls (fst (click requests_post super_click self x y button)) = [])"
  using assms
  by (auto simp add: click_def click_request_def button_type_def button_mapping_def
        http_requests_simps super_calls_simps split: sum.split)

theorem click_unknown_button_sent_as_left_witness:
  "truthy (session_id abc123)
   \<and> ok (reply 200 [])
   \<and> click (vendor_replies (reply 200 [])) (super_returns ()) abc123 10 20 ''middle''
       = ([Http \<lparr>verb = POST,
            url = ''https://api.anchorbrowser.io/api/sessions/abc123/mouse/click'',
            headers = [(''anchor-api-key'', ''secret'')],
            json_body = Some [(''x'', PyInt 10), (''y'', PyInt 20),
                              (''button'', PyStr ''left'')]\<rparr>], Inr ())
   \<and> super_calls (fst (click (vendor_replies (reply 200 [])) (super_returns ()) abc123
        10 20 ''middle'')) = []"
proof -
  have t: "truthy (session_id abc123)" by (simp add: abc123_def)
  have m: "''middle'' \<notin> {''left'', ''right'', ''back'', ''forward'', ''wheel''}" by simp
  show ?thesis
    using t
      click_unknown_button_sent_as_left [OF t m, of "vendor_replies (reply 200 [])"
        "super_returns ()" 10 20 "reply 200 []"]
    by (simp add: abc123_def fresh_def click_def click_request_def button_type_def
          button_mapping_def vendor_replies_def reply_def ok_iff)
qed

section \<open>Vendor successes\<close>

text \<open>
  Claim C6. With an active session id, when the vendor answers the screenshot request
  with a status in 200..299, screenshot returns the body of the response as it is, the
  vendor request is the only event, and the fallback driver is not invoked. At the
  session \<^verbatim>\<open>abc123\<close> and the body \<^verbatim>\<open>BASE64DATA\<close> the result is \<^verbatim>\<open>BASE64DATA\<close>.
\<close>

theorem screenshot_success_verbatim:
  assumes "truthy (session_id self)"
    and "requests_get (screenshot_request self) = Inr response"
    and "200 \<le> status_code response \<and> status_code response < 300"
  shows "snd (screenshot requests_get super_screenshot self) = Inr (resp_text response)
         \<and> super_calls (fst (screenshot requests_get super_screenshot self)) = []
         \<and> http_requests (fst (screenshot requests_get super_screenshot self))
             = [screenshot_request self]"
  using assms by (simp add: screenshot_def ok_iff http_requests_simps super_calls_simps)

theorem screenshot_success_verbatim_witness:
  "truthy (session_id abc123)
   \<and> vendor_replies (reply 200 ''BASE64DATA'') (screenshot_request abc123)
       = Inr (reply 200 ''BASE64DATA'')
   \<and> status_code (reply 200 ''BASE64DATA'') = 200
   \<and> snd (screenshot (vendor_replies (reply 200 ''BASE64DATA'')) (super_returns ''FALLBACK'')
        abc123) = Inr ''BASE64DATA''
   \<and> super_calls (fst (screenshot (vendor_replies (reply 200 ''BASE64DATA''))
         (super_returns ''FALLBACK'') abc123)) = []
   \<and> url (screenshot_request abc123)
       = ''https://api.anchorbrowser.io/api/sessions/abc123/screenshot''"
proof -
  have t: "truthy (session_id abc123)" by (simp add: abc123_def)
  have v: "vendor_replies (reply 200 ''BASE64DATA'') (screenshot_request abc123)
             = Inr (reply 200 ''BASE64DATA'')"
    by (simp add: vendor_replies_def)
  have s: "200 \<le> status_code (reply 200 ''BASE64DATA'')
            \<and> status_code (reply 200 ''BASE64DATA'') < 300"
    by (simp add: reply_def)
  show ?thesis
    using t v s
      screenshot_success_verbatim [of abc123 "vendor_replies (reply 200 ''BASE64DATA'')"
        "reply 200 ''BASE64DATA''" "super_returns ''FALLBACK''"]
    by (simp add: reply_def screenshot_request_def abc123_def fresh_def)
qed

text \<open>
  Claim C8. With an active session id, type issues exactly one vendor request: a POST
  to the session's \<^verbatim>\<open>keyboard/type\<close> address whose JSON body holds the given text
  under \<^verbatim>\<open>text\<close> and the number 30 under \<^verbatim>\<open>delay\<close>.
\<close>

theorem type_posts_text_and_delay:
  assumes "truthy (session_id self)"
  shows "http_requests (fst (type requests_post super_type self txt))
           = [\<lparr>verb = POST,
               url = base_url self @ ''/sessions/'' @ py_str (session_id self)
                     @ ''/keyboard/type'',
               headers = [(''anchor-api-key'', api_key self)],
               json_body = Some [(''text'', PyStr txt), (''delay'', PyInt 30)]\<rparr>]
         \<and> hd (fst (type requests_post super_type self txt)) = Http (type_request self txt)"
  using assms
  by (simp add: type_def type_request_def http_requests_simps split: sum.split)

theorem type_posts_text_and_delay_witness:
  "truthy (session_id abc123)
   \<and> http_requests (fst (type (vendor_replies (reply 200 [])) (super_returns ()) abc123
        ''hello''))
       = [\<lparr>verb = POST,
           url = ''https://api.anchorbrowser.io/api/sessions/abc123/keyboard/type'',
           headers = [(''anchor-api-key'', ''secret'')],
           json_body = Some [(''text'', PyStr ''hello''), (''delay'', PyInt 30)]\<rparr>]"
proof -
  have t: "truthy (session_id abc123)" by (simp add: abc123_def)
  show ?thesis
    using t
      type_posts_text_and_delay [OF t, of "vendor_replies (reply 200 [])" "super_returns ()"
        "''hello''"]
    by (simp add: abc123_def fresh_def)
qed

section \<open>Teardown\<close>

text \<open>
  The claim C4 as it is written speaks of every pair of teardown calls. \<^verbatim>\<open>__exit__\<close>
  does not catch what \<^verbatim>\<open>requests.delete\<close> raises: with the session \<^verbatim>\<open>abc123\<close> and
  a vendor that cannot be reached, the first call raises and leaves the identifier in
  place, and the second call issues the delete request again and raises again.
\<close>

theorem teardown_twice_counterexample:
  "truthy (session_id abc123)
   \<and> dunder_exit vendor_unreachable abc123
       = (abc123, [Http (delete_request abc123)],
          Inl (Exn ''ConnectionError'' ''Connection refused''))
   \<and> dunder_exit vendor_unreachable (fst (dunder_exit vendor_unreachable abc123))
       = (abc123, [Http (delete_request abc123)],
          Inl (Exn ''ConnectionError'' ''Connection refused''))
   \<and> http_requests (fst (snd (dunder_exit vendor_unreachable abc123))
        @ fst (snd (dunder_exit vendor_unreachable (fst (dunder_exit vendor_unreachable abc123)))))
       = [delete_request abc123, delete_request abc123]
   \<and> session_id (fst (dunder_exit vendor_unreachable
        (fst (dunder_exit vendor_unreachable abc123)))) = PyStr ''abc123''"
  by (simp add: dunder_exit_def vendor_unreachable_def abc123_def fresh_def http_requests_simps)

text \<open>
  Claim C4, amended. When a session identifier is stored and the vendor's delete call
  returns a response (of any status), two teardown calls in a row issue exactly one
  request, the DELETE of that session; the first call returns and clears the stored
  identifier, and the second call changes nothing, issues nothing and returns.
\<close>

theorem teardown_twice:
  assumes "truthy (session_id self)"
    and "requests_delete (delete_request self) = Inr response"
    and "dunder_exit requests_delete self = (self1, evs1, r1)"
    and "dunder_exit requests_delete' self1 = (self2, evs2, r2)"
  shows "http_requests (evs1 @ evs2)
           = [\<lparr>verb = DELETE,
               url = base_url self @ ''/sessions/'' @ py_str (session_id self),
               headers = [(''anchor-api-key'', api_key self)], json_body = None\<rparr>]
         \<and> r1 = Inr () \<and> session_id self1 = PyNone
         \<and> self2 = self1 \<and> evs2 = [] \<and> r2 = Inr ()"
  using assms
  by (auto simp add: dunder_exit_def delete_request_def http_requests_simps)

lemma dunder_exit_example:
  "dunder_exit (vendor_replies (reply 200 [])) abc123
     = (fresh, [Http (delete_request abc123)], Inr ())"
  by (simp add: dunder_exit_def vendor_replies_def abc123_def fresh_def)

lemma dunder_exit_again_example:
  "dunder_exit vendor_unreachable fresh = (fresh, [], Inr ())"
  by (simp add: dunder_exit_def fresh_def)

theorem teardown_twice_witness:
  "truthy (session_id abc123)
   \<and> vendor_replies (reply 200 []) (delete_request abc123) = Inr (reply 200 [])
   \<and> dunder_exit (vendor_replies (reply 200 [])) abc123
       = (fresh, [Http (delete_request abc123)], Inr ())
   \<and> dunder_exit vendor_unreachable fresh = (fresh, [], Inr ())
   \<and> http_requests ([Http (delete_request abc123)] @ [])
       = [\<lparr>verb = DELETE,
           url = ''https://api.anchorbrowser.io/api/sessions/abc123'',
           headers = [(''anchor-api-key'', ''secret'')], json_body = None\<rparr>]
   \<and> session_id fresh = PyNone"
proof -
  have t: "truthy (session_id abc123)" by (simp add: abc123_def)
  have v: "vendor_replies (reply 200 []) (delete_request abc123) = Inr (reply 200 [])"
    by (simp add: vendor_replies_def)
  show ?thesis
    using t v dunder_exit_example dunder_exit_again_example
      teardown_twice [OF t v dunder_exit_example dunder_exit_again_example]
    by (simp add: abc123_def fresh_def)
qed

section \<open>Session creation\<close>

lemma dispatch_session_id:
  "session_id (fst (dispatch ev (self, log))) = session_id self"
  by (cases ev)
     (simp_all add: Let_def handle_new_page_def handle_page_close_def
        split: option.split list.split)

lemma invoke_session_id:
  "\<not> is_exit c \<Longrightarrow> session_id (fst (invoke c (self, log))) = session_id self"
  by (cases c) (simp_all add: dispatch_session_id)

lemma fold_invoke_session_id:
  "\<forall>c \<in> set calls. \<not> is_exit c \<Longrightarrow>
   session_id (fst (fold invoke calls st)) = session_id (fst st)"
proof (induction calls arbitrary: st)
  case Nil
  then show ?case by simp
next
  case (Cons c calls)
  obtain self log where st: "st = (self, log)" by (cases st)
  have "session_id (fst (fold invoke calls (invoke c (self, log))))
          = session_id (fst (invoke c (self, log)))"
    using Cons.IH [of "invoke c (self, log)"] Cons.prems by simp
  then show ?case using invoke_session_id [of c self log] Cons.prems st by simp
qed

text \<open>
  Claim C7. Let the vendor answer the creation request.
  \<^item> If the answer is not successful (\<^verbatim>\<open>raise_for_status\<close> raises), the call raises and
    the state is unchanged.
  \<^item> If the answer gives no identifier, the call raises: when the body does not decode,
    when it decodes to something that is not a JSON object, when the object has no key
    \<^verbatim>\<open>id\<close>, and when the value under \<^verbatim>\<open>id\<close> is \<^verbatim>\<open>null\<close>, \<^verbatim>\<open>false\<close>, \<^verbatim>\<open>0\<close> or the empty
    string. In the last two cases the error of a successful answer is the
    \<^verbatim>\<open>ValueError\<close> of line 88.
  \<^item> Otherwise, a successful answer with a true value under \<^verbatim>\<open>id\<close>, that value is
    stored in \<^verbatim>\<open>session_id\<close> and nothing of the creation raises: the events and the
    outcome that follow are those of connecting to the session.
  \<^item> The stored identifier stays through every later run of commands and page events
    that holds no teardown; \<^verbatim>\<open>__exit__\<close> is the one other method that assigns
    \<^verbatim>\<open>session_id\<close>.
\<close>

theorem session_creation:
  assumes "requests_post (create_request self) = Inr response"
    and "get_browser_and_page requests_post connect_over_cdp goto self = (self', evs, res)"
  shows "(\<not> ok response \<longrightarrow> isl res \<and> self' = self)
       \<and> (json response = Inl e \<longrightarrow> isl res \<and> self' = self)
       \<and> (json response = Inr (JOther tn) \<longrightarrow> isl res \<and> self' = self)
       \<and> (json response = Inr (JObject d) \<and> ''id'' \<notin> fst ` set d
            \<longrightarrow> isl res
              \<and> (ok response
                   \<longrightarrow> res = Inl (Exn ''ValueError'' ''Failed to create Anchor browser session'')))
       \<and> (json response = Inr (JObject d) \<and> \<not> truthy (dict_get d ''id'')
            \<longrightarrow> isl res
              \<and> (ok response
                   \<longrightarrow> res = Inl (Exn ''ValueError'' ''Failed to create Anchor browser session'')))
       \<and> (ok response \<and> json response = Inr (JObject d)
            \<longrightarrow> self' = self\<lparr>session_id := dict_get d ''id''\<rparr>)
       \<and> (ok response \<and> json response = Inr (JObject d) \<and> truthy (dict_get d ''id'')
            \<longrightarrow> res = snd (connect_session connect_over_cdp goto self')
              \<and> evs = Http (create_request self)
                       # fst (connect_session connect_over_cdp goto self'))
       \<and> ((\<forall>c \<in> set calls. \<not> is_exit c)
            \<longrightarrow> session_id (fst (fold invoke calls (self', log))) = session_id self')"
proof (intro conjI impI)
  assume "\<not> ok response"
  then show "isl res" and "self' = self"
    using assms by (auto simp add: get_browser_and_page_def ok_def)
next
  assume "json response = Inl e"
  then show "isl res" and "self' = self"
    using assms by (auto simp add: get_browser_and_page_def split: option.splits)
next
  assume "json response = Inr (JOther tn)"
  then show "isl res" and "self' = self"
    using assms by (auto simp add: get_browser_and_page_def split: option.splits)
next
  assume h: "json response = Inr (JObject d) \<and> ''id'' \<notin> fst ` set d"
  then show "isl res"
    using assms
    by (auto simp add: get_browser_and_page_def dict_get_absent split: option.splits)
  assume "ok response"
  then show "res = Inl (Exn ''ValueError'' ''Failed to create Anchor browser session'')"
    using assms h by (auto simp add: get_browser_and_page_def dict_get_absent ok_def)
next
  assume h: "json response = Inr (JObject d) \<and> \<not> truthy (dict_get d ''id'')"
  then show "isl res"
    using assms
    by (auto simp add: get_browser_and_page_def split: option.splits)
  assume "ok response"
  then show "res = Inl (Exn ''ValueError'' ''Failed to create Anchor browser session'')"
    using assms h by (auto simp add: get_browser_and_page_def ok_def)
next
  assume h: "ok response \<and> json response = Inr (JObject d)"
  then show "self' = self\<lparr>session_id := dict_get d ''id''\<rparr>"
    using assms
    by (auto simp add: get_browser_and_page_def ok_def Let_def split: prod.splits if_splits)
next
  assume h: "ok response \<and> json response = Inr (JObject d) \<and> truthy (dict_get d ''id'')"
  then show "res = snd (connect_session connect_over_cdp goto self')"
    and "evs = Http (create_request self) # fst (connect_session connect_over_cdp goto self')"
    using assms
    by (auto simp add: get_browser_and_page_def ok_def Let_def split: prod.splits if_splits)
next
  assume "\<forall>c \<in> set calls. \<not> is_exit c"
  then show "session_id (fst (fold invoke calls (self', log))) = session_id self'"
    using fold_invoke_session_id [of calls "(self', log)"] by simp
qed

lemma creation_transport_failure:
  "requests_post (create_request self) = Inl e \<Longrightarrow>
   get_browser_and_page requests_post connect_over_cdp goto self
     = (self, [Http (create_request self)], Inl e)"
  by (simp add: get_browser_and_page_def)

lemma get_browser_and_page_example:
  "get_browser_and_page (vendor_replies session_reply) (cdp_connects (Browser [Context [0]]))
      goto_succeeds fresh
     = (abc123, connected_log, Inr (Browser [Context [0]], 0))"
  by (simp add: get_browser_and_page_def vendor_replies_def session_reply_def reply_json_def
        raise_for_status_def dict_get_def connect_session_def cdp_connects_def
        goto_succeeds_def abc123_def fresh_def connected_log_def)

lemma get_browser_and_page_rejected:
  "get_browser_and_page (vendor_replies (reply_json 500 [(''id'', PyStr ''abc123'')]))
      (cdp_connects (Browser [Context [0]])) goto_succeeds fresh
     = (fresh, [Http (create_request fresh)],
        Inl (Exn ''HTTPError'' ''500 Server Error:  for url: ''))"
  by (simp add: get_browser_and_page_def vendor_replies_def reply_json_def
        raise_for_status_def str_int_def)

lemma get_browser_and_page_no_id:
  "get_browser_and_page (vendor_replies (reply_json 200 [(''status'', PyStr ''ok'')]))
      (cdp_connects (Browser [Context [0]])) goto_succeeds fresh
     = (fresh, [Http (create_request fresh)],
        Inl (Exn ''ValueError'' ''Failed to create Anchor browser session''))"
  by (simp add: get_browser_and_page_def vendor_replies_def reply_json_def
        raise_for_status_def dict_get_def fresh_def Let_def)

lemma get_browser_and_page_null_id:
  "get_browser_and_page (vendor_replies (reply_json 200 [(''id'', PyNone)]))
      (cdp_connects (Browser [Context [0]])) goto_succeeds fresh
     = (fresh, [Http (create_request fresh)],
        Inl (Exn ''ValueError'' ''Failed to create Anchor browser session''))"
  by (simp add: get_browser_and_page_def vendor_replies_def reply_json_def
        raise_for_status_def dict_get_def fresh_def Let_def)

lemma get_browser_and_page_empty_id:
  "get_browser_and_page (vendor_replies (reply_json 200 [(''id'', PyStr [])]))
      (cdp_connects (Browser [Context [0]])) goto_succeeds fresh
     = (fresh\<lparr>session_id := PyStr []\<rparr>, [Http (create_request fresh)],
        Inl (Exn ''ValueError'' ''Failed to create Anchor browser session''))"
  by (simp add: get_browser_and_page_def vendor_replies_def reply_json_def
        raise_for_status_def dict_get_def fresh_def Let_def)

lemma get_browser_and_page_not_json:
  "get_browser_and_page (vendor_replies (reply 200 ''<html>''))
      (cdp_connects (Browser [Context [0]])) goto_succeeds fresh
     = (fresh, [Http (create_request fresh)],
        Inl (Exn ''JSONDecodeError'' ''Expecting value: line 1 column 1 (char 0)''))"
  by (simp add: get_browser_and_page_def vendor_replies_def reply_def raise_for_status_def)

lemma get_browser_and_page_not_object:
  "get_browser_and_page (vendor_replies (reply_other 200 ''list''))
      (cdp_connects (Browser [Context [0]])) goto_succeeds fresh
     = (fresh, [Http (create_request fresh)],
        Inl (Exn ''AttributeError''
               (CHR 0x27 # ''list'' @ CHR 0x27 # '' object has no attribute ''
                @ CHR 0x27 # ''get'' @ [CHR 0x27])))"
  by (simp add: get_browser_and_page_def vendor_replies_def reply_other_def
        raise_for_status_def)

theorem session_creation_witness:
  "isl (snd (snd (get_browser_and_page
        (vendor_replies (reply_json 500 [(''id'', PyStr ''abc123'')]))
        (cdp_connects (Browser [Context [0]])) goto_succeeds fresh)))
   \<and> isl (snd (snd (get_browser_and_page (vendor_replies (reply 200 ''<html>''))
        (cdp_connects (Browser [Context [0]])) goto_succeeds fresh)))
   \<and> isl (snd (snd (get_browser_and_page (vendor_replies (reply_other 200 ''list''))
        (cdp_connects (Browser [Context [0]])) goto_succeeds fresh)))
   \<and> snd (snd (get_browser_and_page
        (vendor_replies (reply_json 200 [(''status'', PyStr ''ok'')]))
        (cdp_connects (Browser [Context [0]])) goto_succeeds fresh))
       = Inl (Exn ''ValueError'' ''Failed to create Anchor browser session'')
   \<and> snd (snd (get_browser_and_page (vendor_replies (reply_json 200 [(''id'', PyNone)]))
        (cdp_connects (Browser [Context [0]])) goto_succeeds fresh))
       = Inl (Exn ''ValueError'' ''Failed to create Anchor browser session'')
   \<and> snd (snd (get_browser_and_page (vendor_replies (reply_json 200 [(''id'', PyStr [])]))
        (cdp_connects (Browser [Context [0]])) goto_succeeds fresh))
       = Inl (Exn ''ValueError'' ''Failed to create Anchor browser session'')
   \<and> session_id (fst (get_browser_and_page (vendor_replies session_reply)
        (cdp_connects (Browser [Context [0]])) goto_succeeds fresh)) = PyStr ''abc123''
   \<and> snd (snd (get_browser_and_page (vendor_replies session_reply)
        (cdp_connects (Browser [Context [0]])) goto_succeeds fresh))
       = Inr (Browser [Context [0]], 0)
   \<and> session_id (fst (fold invoke a_life (abc123, connected_log))) = PyStr ''abc123''"
proof -
  have v: "vendor_replies r (create_request fresh) = Inr r" for r
    by (simp add: vendor_replies_def)
  have l: "\<forall>c \<in> set a_life. \<not> is_exit c" by (simp add: a_life_def)
  have j: "json (reply 200 ''<html>'')
             = Inl (Exn ''JSONDecodeError'' ''Expecting value: line 1 column 1 (char 0)'')"
    by (simp add: reply_def)
  have k: "json (reply_other 200 ''list'') = Inr (JOther ''list'')"
    by (simp add: reply_other_def)
  have n: "json (reply_json 200 d) = Inr (JObject d) \<and> ok (reply_json 200 d)" for d
    by (simp add: reply_json_def ok_iff)
  have r: "\<not> ok (reply_json 500 [(''id'', PyStr ''abc123'')])"
    by (simp add: reply_json_def ok_iff)
  have 1: "isl (snd (snd (get_browser_and_page
        (vendor_replies (reply_json 500 [(''id'', PyStr ''abc123'')]))
        (cdp_connects (Browser [Context [0]])) goto_succeeds fresh)))"
    using r session_creation [OF v get_browser_and_page_rejected]
    by (simp add: get_browser_and_page_rejected)
  have 2: "isl (snd (snd (get_browser_and_page (vendor_replies (reply 200 ''<html>''))
        (cdp_connects (Browser [Context [0]])) goto_succeeds fresh)))"
    using j session_creation [OF v get_browser_and_page_not_json,
        of "Exn ''JSONDecodeError'' ''Expecting value: line 1 column 1 (char 0)''"]
    by (simp add: get_browser_and_page_not_json)
  have 3: "isl (snd (snd (get_browser_and_page (vendor_replies (reply_other 200 ''list''))
        (cdp_connects (Browser [Context [0]])) goto_succeeds fresh)))"
    using k session_creation [OF v get_browser_and_page_not_object, of _ "''list''"]
    by (simp add: get_browser_and_page_not_object)
  have 4: "snd (snd (get_browser_and_page
        (vendor_replies (reply_json 200 [(''status'', PyStr ''ok'')]))
        (cdp_connects (Browser [Context [0]])) goto_succeeds fresh))
       = Inl (Exn ''ValueError'' ''Failed to create Anchor browser session'')"
    using n [of "[(''status'', PyStr ''ok'')]"]
      session_creation [OF v get_browser_and_page_no_id, of _ _ "[(''status'', PyStr ''ok'')]"]
    by (simp add: get_browser_and_page_no_id)
  have 5: "snd (snd (get_browser_and_page (vendor_replies (reply_json 200 [(''id'', PyNone)]))
        (cdp_connects (Browser [Context [0]])) goto_succeeds fresh))
       = Inl (Exn ''ValueError'' ''Failed to create Anchor browser session'')"
    using n [of "[(''id'', PyNone)]"]
      session_creation [OF v get_browser_and_page_null_id, of _ _ "[(''id'', PyNone)]"]
    by (simp add: get_browser_and_page_null_id dict_get_def)
  have 6: "snd (snd (get_browser_and_page (vendor_replies (reply_json 200 [(''id'', PyStr [])]))
        (cdp_connects (Browser [Context [0]])) goto_succeeds fresh))
       = Inl (Exn ''ValueError'' ''Failed to create Anchor browser session'')"
    using n [of "[(''id'', PyStr [])]"]
      session_creation [OF v get_browser_and_page_empty_id, of _ _ "[(''id'', PyStr [])]"]
    by (simp add: get_browser_and_page_empty_id dict_get_def)
  have 7: "session_id (fst (get_browser_and_page (vendor_replies session_reply)
        (cdp_connects (Browser [Context [0]])) goto_succeeds fresh)) = PyStr ''abc123''
   \<and> snd (snd (get_browser_and_page (vendor_replies session_reply)
        (cdp_connects (Browser [Context [0]])) goto_succeeds fresh))
       = Inr (Browser [Context [0]], 0)
   \<and> session_id (fst (fold invoke a_life (abc123, connected_log))) = PyStr ''abc123''"
    using l session_creation [OF v get_browser_and_page_example,
        of _ _ "[(''id'', PyStr ''abc123'')]" a_life connected_log]
    by (simp add: get_browser_and_page_example abc123_def)
  show ?thesis using 1 2 3 4 5 6 7 by blast
qed

section \<open>Page lifecycle transitions\<close>

text \<open>
  Claim C3. On the close of a page: when it is the current active page and the first
  context lists pages, the active page becomes the last page of that list; when it is
  the current active page and the list is empty, the active page becomes \<^verbatim>\<open>None\<close> and
  the warning is printed; when it is not the current active page, the state is unchanged.
\<close>

theorem page_close_transition:
  "(priv_page self = Some pg \<and> priv_browser self = Some b \<and> contexts b = ctx # cs
      \<and> pages ctx \<noteq> []
    \<longrightarrow> handle_page_close pg self
          = (self\<lparr>priv_page := Some (last (pages ctx))\<rparr>, [Print ''Page closed''], Inr ()))
   \<and> (priv_page self = Some pg \<and> priv_browser self = Some b \<and> contexts b = ctx # cs
      \<and> pages ctx = []
    \<longrightarrow> handle_page_close pg self
          = (self\<lparr>priv_page := None\<rparr>,
             [Print ''Page closed'', Print ''Warning: All pages have been closed.''], Inr ()))
   \<and> (priv_page self \<noteq> Some pg
    \<longrightarrow> handle_page_close pg self = (self, [Print ''Page closed''], Inr ()))"
  by (simp add: handle_page_close_def)

theorem page_close_transition_witness:
  "priv_page two_pages = Some 1 \<and> priv_browser two_pages = Some (Browser [Context [2, 3]])
   \<and> priv_page (fst (handle_page_close 1 two_pages)) = Some 3
   \<and> priv_page no_pages = Some 1 \<and> priv_browser no_pages = Some (Browser [Context []])
   \<and> priv_page (fst (handle_page_close 1 no_pages)) = None
   \<and> fst (snd (handle_page_close 1 no_pages))
       = [Print ''Page closed'', Print ''Warning: All pages have been closed.'']
   \<and> priv_page two_pages \<noteq> Some 2
   \<and> fst (handle_page_close 2 two_pages) = two_pages"
  using page_close_transition [of two_pages 1 "Browser [Context [2, 3]]" "Context [2, 3]" "[]"]
    page_close_transition [of no_pages 1 "Browser [Context []]" "Context []" "[]"]
    page_close_transition [of two_pages 2]
  by (simp add: two_pages_def no_pages_def)

section \<open>The initial page\<close>

lemma connect_session_no_close_listener:
  "On_close q \<notin> set (fst (connect_session connect_over_cdp goto self))"
  by (simp add: connect_session_def Let_def split: sum.split list.split option.split)

lemma get_browser_and_page_no_close_listener:
  assumes "get_browser_and_page requests_post connect_over_cdp goto self = (self', evs, res)"
  shows "On_close q \<notin> set evs"
proof -
  have "On_close q \<notin> set (fst (snd
          (get_browser_and_page requests_post connect_over_cdp goto self)))"
    by (simp add: get_browser_and_page_def Let_def split_beta
          connect_session_no_close_listener
          split: sum.split option.split json_doc.split)
  then show ?thesis using assms by simp
qed

lemma handle_new_page_listens:
  "On_close q \<in> set (snd (handle_new_page pg self)) \<longleftrightarrow> q = pg"
  by (auto simp add: handle_new_page_def)

lemma dispatch_keeps_unlistened:
  assumes "On_close q \<notin> set log" and "\<not> opens q ev" and "dispatch ev (self, log) = (s, l)"
  shows "On_close q \<notin> set l"
  using assms
  by (cases ev)
     (auto simp add: Let_def handle_new_page_def handle_page_close_def
        split: if_splits option.splits list.splits)

lemma run_keeps_unlistened:
  assumes "On_close q \<notin> set (snd st)" and "\<forall>ev \<in> set pevs. \<not> opens q ev"
  shows "On_close q \<notin> set (snd (run pevs st))"
  using assms
proof (induction pevs arbitrary: st)
  case Nil
  then show ?case by (simp add: run_def)
next
  case (Cons ev pevs)
  obtain self log where st: "st = (self, log)" by (cases st)
  obtain s l where d: "dispatch ev (self, log) = (s, l)" by (cases "dispatch ev (self, log)")
  have "On_close q \<notin> set l"
    using dispatch_keeps_unlistened [OF _ _ d] Cons.prems st by simp
  then have "On_close q \<notin> set (snd (run pevs (s, l)))"
    using Cons.IH [of "(s, l)"] Cons.prems by simp
  then show ?case by (simp add: run_def st d)
qed

lemma close_without_listener:
  assumes "On_close q \<notin> set log"
  shows "dispatch (Page_closed q b) (self, log)
           = (self\<lparr>priv_browser := map_option (\<lambda>_. b) (priv_browser self)\<rparr>, log)"
  using assms by (simp add: Let_def)

text \<open>
  Claim C10. Let \<^verbatim>\<open>_get_browser_and_page\<close> return the browser and its initial page
  \<open>p0\<close>, on which no close listener was registered before. The call registers none on
  it. After any page events that follow, none of which announces \<open>p0\<close> as a new page,
  \<open>p0\<close> still carries no close listener: when it closes, \<^verbatim>\<open>_handle_page_close\<close> does
  not run (the log of events stays as it is) and the active page reference is unchanged.
\<close>

theorem initial_page_never_listened:
  assumes "get_browser_and_page requests_post connect_over_cdp goto self
             = (self', evs, Inr (b, p0))"
    and "On_close p0 \<notin> set log0"
    and "\<forall>ev \<in> set pevs. \<not> opens p0 ev"
    and "run pevs (s0, log0 @ evs) = (s, log)"
  shows "On_close p0 \<notin> set evs
       \<and> On_close p0 \<notin> set log
       \<and> snd (dispatch (Page_closed p0 b') (s, log)) = log
       \<and> priv_page (fst (dispatch (Page_closed p0 b') (s, log))) = priv_page s"
proof -
  have 1: "On_close p0 \<notin> set evs"
    using get_browser_and_page_no_close_listener [OF assms(1)] .
  have "On_close p0 \<notin> set (snd (run pevs (s0, log0 @ evs)))"
    using run_keeps_unlistened [of p0 "(s0, log0 @ evs)" pevs] 1 assms(2,3) by simp
  then have 2: "On_close p0 \<notin> set log" using assms(4) by simp
  show ?thesis using 1 2 close_without_listener [OF 2] by simp
qed

text \<open>
  A popup, page 1, opens and becomes the active page; when it closes its listener runs and
  the active page is page 0 again. Then page 0 closes, no page is left, and the active page
  reference still names page 0.
\<close>

lemma run_example:
  "run popup_cycle (connected, [] @ connected_log)
     = (connected,
        connected_log @ [Print ''New page created'', On_close 1, Print ''Page closed''])"
  by (simp add: run_def popup_cycle_def connected_def connected_log_def handle_new_page_def
        handle_page_close_def abc123_def fresh_def)

theorem initial_page_never_listened_witness:
  "get_browser_and_page (vendor_replies session_reply) (cdp_connects (Browser [Context [0]]))
      goto_succeeds fresh
     = (abc123, connected_log, Inr (Browser [Context [0]], 0))
   \<and> On_close 0 \<notin> set connected_log
   \<and> priv_page (fst (run popup_cycle (connected, connected_log))) = Some 0
   \<and> priv_page (fst (dispatch (Page_closed 0 (Browser [Context []]))
        (run popup_cycle (connected, connected_log)))) = Some 0
   \<and> snd (dispatch (Page_closed 0 (Browser [Context []]))
        (run popup_cycle (connected, connected_log)))
       = connected_log @ [Print ''New page created'', On_close 1, Print ''Page closed'']"
proof -
  have o: "\<forall>ev \<in> set popup_cycle. \<not> opens 0 ev" by (simp add: popup_cycle_def)
  have n: "On_close 0 \<notin> set []" by simp
  show ?thesis
    using initial_page_never_listened [OF get_browser_and_page_example n o run_example,
        of "Browser [Context []]"] get_browser_and_page_example run_example
    by (simp add: connected_def)
qed

end
